theory Spec2Isabelle
  imports Complex_Main
begin

unbundle bit_operations_syntax

section \<open>Python values used by \<^verbatim>\<open>book_rec.py\<close>\<close>

text \<open>
  Strings are lists of characters; a character stands for a code point below 256.
  Exceptions that leave a method are values of \<open>py_error\<close>.
\<close>

datatype py_error = ValueError | KeyError string | OutOfBounds

subsection \<open>The built-in \<^verbatim>\<open>int(str)\<close>\<close>

text \<open>
  \<^verbatim>\<open>int(s)\<close> on a string: surrounding whitespace is dropped, one sign is allowed, then
  decimal digits follow, where single underscores may separate digits. Anything else
  raises \<^verbatim>\<open>ValueError\<close> (here \<open>None\<close>), and so does a literal of more than 4300 digits
  (the interpreter's default limit for the conversion).
\<close>

definition py_isspace :: "char \<Rightarrow> bool" where
  "py_isspace c \<longleftrightarrow>
     c \<in> set [CHR 0x09, CHR 0x0A, CHR 0x0B, CHR 0x0C, CHR 0x0D, CHR 0x1C, CHR 0x1D,
                CHR 0x1E, CHR 0x1F, CHR '' '', CHR 0x85, CHR 0xA0]"

definition py_strip :: "string \<Rightarrow> string" where
  "py_strip s = rev (dropWhile py_isspace (rev (dropWhile py_isspace s)))"

definition is_digit :: "char \<Rightarrow> bool" where
  "is_digit c \<longleftrightarrow> c \<in> set ''0123456789''"

definition digit_val :: "char \<Rightarrow> nat" where
  "digit_val c = of_char c - 48"

fun parse_digits :: "char option \<Rightarrow> nat \<Rightarrow> nat \<Rightarrow> string \<Rightarrow> (nat \<times> nat) option" where
  "parse_digits prev acc cnt [] =
     (if prev = None \<or> prev = Some (CHR ''_'') then None else Some (acc, cnt))"
| "parse_digits prev acc cnt (c # cs) =
     (if c = CHR ''_''
      then (if prev = None \<or> prev = Some (CHR ''_'') then None
            else parse_digits (Some c) acc cnt cs)
      else if is_digit c then parse_digits (Some c) (10 * acc + digit_val c) (Suc cnt) cs
      else None)"

definition max_str_digits :: nat where
  "max_str_digits = 4300"

definition py_int :: "string \<Rightarrow> int option" where
  "py_int s =
     (case py_strip s of
        [] \<Rightarrow> None
      | c # cs \<Rightarrow>
          (let neg = (c = CHR ''-'');
               body = (if c = CHR ''-'' \<or> c = CHR ''+'' then cs else c # cs)
           in case parse_digits None 0 0 body of
                None \<Rightarrow> None
              | Some (v, cnt) \<Rightarrow>
                  if max_str_digits < cnt then None
                  else Some (if neg then - int v else int v)))"

subsection \<open>Title normalisation\<close>

text \<open>
  \<^verbatim>\<open>str.lower()\<close> on code points below 256: the ASCII capitals and the Latin-1 capitals
  (0xC0 to 0xDE without the multiplication sign 0xD7) move up by 32.
\<close>

definition py_lower_char :: "char \<Rightarrow> char" where
  "py_lower_char c =
     (let n = (of_char c :: nat)
      in if (65 \<le> n \<and> n \<le> 90) \<or> (192 \<le> n \<and> n \<le> 222 \<and> n \<noteq> 215)
         then char_of (n + 32) else c)"

definition py_lower :: "string \<Rightarrow> string" where
  "py_lower s = map py_lower_char s"

text \<open>The character class \<^verbatim>\<open>[a-z0-9 ]\<close> and its relative \<^verbatim>\<open>[a-zA-Z0-9 ]\<close>.\<close>

definition in_lower_class :: "char \<Rightarrow> bool" where
  "in_lower_class c \<longleftrightarrow> c \<in> set ''abcdefghijklmnopqrstuvwxyz0123456789 ''"

definition in_alnum_class :: "char \<Rightarrow> bool" where
  "in_alnum_class c \<longleftrightarrow>
     in_lower_class c \<or> c \<in> set ''ABCDEFGHIJKLMNOPQRSTUVWXYZ''"

text \<open>\<^verbatim>\<open>re.sub("[^a-z0-9 ]", "", input.lower())\<close>, the first line of \<^verbatim>\<open>search\<close>.\<close>

definition norm_input :: "string \<Rightarrow> string" where
  "norm_input inp = filter in_lower_class (py_lower inp)"

text \<open>\<^verbatim>\<open>str.replace_all("[^a-zA-Z0-9 ]", "").str.to_lowercase()\<close>, the title column.\<close>

definition norm_title :: "string \<Rightarrow> string" where
  "norm_title t = py_lower (filter in_alnum_class t)"

section \<open>The recommender object\<close>

text \<open>
  A line of the books file after \<^verbatim>\<open>parse_fields\<close>; the Goodreads dump stores every
  field, the number of ratings too, as a JSON string.
\<close>

record raw_book =
  raw_book_id :: string
  title_without_series :: string
  ratings_count :: string
  raw_url :: string

text \<open>A row of \<^verbatim>\<open>self.titles\<close> and a row of \<^verbatim>\<open>self.interactions_df\<close>.\<close>

record title_row =
  book_id :: string
  title :: string
  ratings :: int
  url :: string
  norm_titles :: string

record interaction =
  user_id :: string
  csv_id :: string
  rating :: int

record recommender =
  titles :: "title_row list"
  interactions_df :: "interaction list"
  interactions_to_book_data_map :: "string \<rightharpoonup> string"
  book_data_to_interactions_map :: "string \<rightharpoonup> string"
  liked_books :: "string list"
  similar_users :: "string set"

subsection \<open>Construction\<close>

text \<open>
  The loop over the books file: a line whose count does not convert is skipped
  (\<^verbatim>\<open>continue\<close>), a line with at most 25 ratings is not appended. The data frame is
  given the schema type Int64 for the column; the model stores the integer that
  \<^verbatim>\<open>int\<close> returned.
\<close>

definition mk_title_row :: "raw_book \<Rightarrow> int \<Rightarrow> title_row" where
  "mk_title_row f n =
     \<lparr>book_id = raw_book_id f, title = title_without_series f, ratings = n,
      url = raw_url f, norm_titles = norm_title (title_without_series f)\<rparr>"

fun books_titles :: "raw_book list \<Rightarrow> title_row list" where
  "books_titles [] = []"
| "books_titles (f # fs) =
     (case py_int (ratings_count f) of
        None \<Rightarrow> books_titles fs
      | Some n \<Rightarrow> if 25 < n then mk_title_row f n # books_titles fs else books_titles fs)"

text \<open>
  The loop over the map file, one \<open>(csv_id, book_id)\<close> pair per line: both
  dictionaries are assigned, so a later line overwrites an earlier one.
\<close>

fun id_maps ::
  "(string \<rightharpoonup> string) \<times> (string \<rightharpoonup> string) \<Rightarrow> (string \<times> string) list \<Rightarrow>
   (string \<rightharpoonup> string) \<times> (string \<rightharpoonup> string)" where
  "id_maps (i2b, b2i) [] = (i2b, b2i)"
| "id_maps (i2b, b2i) ((c, b) # ps) = id_maps (i2b(c \<mapsto> b), b2i(b \<mapsto> c)) ps"

definition init :: "raw_book list \<Rightarrow> (string \<times> string) list \<Rightarrow> interaction list \<Rightarrow> recommender" where
  "init books pairs inters =
     (let (i2b, b2i) = id_maps (Map.empty, Map.empty) pairs
      in \<lparr>titles = books_titles books, interactions_df = inters,
          interactions_to_book_data_map = i2b, book_data_to_interactions_map = b2i,
          liked_books = [], similar_users = {}\<rparr>)"

text \<open>Dictionary subscription \<^verbatim>\<open>d[k]\<close> raises \<^verbatim>\<open>KeyError\<close> on a missing key.\<close>

definition subscript :: "(string \<rightharpoonup> string) \<Rightarrow> string \<Rightarrow> py_error + string" where
  "subscript d k = (case d k of None \<Rightarrow> Inl (KeyError k) | Some v \<Rightarrow> Inr v)"

text \<open>A loop that appends \<^verbatim>\<open>d[k]\<close> for each key in turn stops at the first missing one.\<close>

fun subscript_all :: "(string \<rightharpoonup> string) \<Rightarrow> string list \<Rightarrow> py_error + string list" where
  "subscript_all d [] = Inr []"
| "subscript_all d (k # ks) =
     (case subscript d k of
        Inl e \<Rightarrow> Inl e
      | Inr v \<Rightarrow> (case subscript_all d ks of Inl e \<Rightarrow> Inl e | Inr vs \<Rightarrow> Inr (v # vs)))"

subsection \<open>Search\<close>

text \<open>
  Two library calls are parameters of the model.
  \<^item> \<open>tfidf corpus q\<close> stands for the similarity array
    \<^verbatim>\<open>cosine_similarity(vectorizer.transform([q]), tfidf).flatten()\<close> of a vectorizer
    fitted on \<open>corpus\<close>; the scores are only compared, so they are rationals here.
  \<^item> \<open>argpart a k\<close> stands for the index array of \<^verbatim>\<open>np.argpartition\<close>, with \<open>k\<close>
    already counted from the front. The documented contract is \<open>argpartition_ok\<close>: the
    result permutes the indices, no entry before position \<open>k\<close> is larger than the one at
    \<open>k\<close>, and none after it is smaller; the order inside the two parts is undefined.
\<close>

definition argpartition_ok :: "rat list \<Rightarrow> nat \<Rightarrow> nat list \<Rightarrow> bool" where
  "argpartition_ok a k idx \<longleftrightarrow>
     k < length a \<and> sort idx = [0..<length a] \<and>
     list_all (\<lambda>i. a ! (idx ! i) \<le> a ! (idx ! k)) [0..<k] \<and>
     list_all (\<lambda>i. a ! (idx ! k) \<le> a ! (idx ! i)) [Suc k..<length a]"

text \<open>A negative \<^verbatim>\<open>kth\<close> counts from the end; out of bounds it raises \<^verbatim>\<open>ValueError\<close>.\<close>

definition np_argpartition ::
  "(rat list \<Rightarrow> nat \<Rightarrow> nat list) \<Rightarrow> rat list \<Rightarrow> int \<Rightarrow> py_error + nat list" where
  "np_argpartition argpart a kth =
     (let n = int (length a); k = (if kth < 0 then kth + n else kth)
      in if 0 \<le> k \<and> k < n then Inr (argpart a (nat k)) else Inl ValueError)"

text \<open>The slice \<^verbatim>\<open>xs[-m:]\<close>: the last \<open>m\<close> entries, all of them when there are fewer.\<close>

definition last_n :: "nat \<Rightarrow> 'a list \<Rightarrow> 'a list" where
  "last_n m xs = drop (length xs - m) xs"

text \<open>\<^verbatim>\<open>indices = np.argpartition(similarity, -10)[-50:]\<close>\<close>

definition search_indices ::
  "(string list \<Rightarrow> string \<Rightarrow> rat list) \<Rightarrow> (rat list \<Rightarrow> nat \<Rightarrow> nat list) \<Rightarrow>
   recommender \<Rightarrow> string \<Rightarrow> py_error + nat list" where
  "search_indices tfidf argpart st inp =
     (let similarity = tfidf (map norm_titles (titles st)) (norm_input inp)
      in case np_argpartition argpart similarity (- 10) of
           Inl e \<Rightarrow> Inl e
         | Inr idx \<Rightarrow> Inr (last_n 50 idx))"

text \<open>
  Row selection by an index array raises when an index is out of bounds. The sort by
  \<^verbatim>\<open>ratings\<close> is descending; the order among equal counts is not fixed by the library
  and is the stable one here.
\<close>

definition select_cols :: "title_row \<Rightarrow> string \<times> string \<times> string" where
  "select_cols r = (book_id r, title r, url r)"

definition search ::
  "(string list \<Rightarrow> string \<Rightarrow> rat list) \<Rightarrow> (rat list \<Rightarrow> nat \<Rightarrow> nat list) \<Rightarrow>
   recommender \<Rightarrow> string \<Rightarrow> py_error + (string \<times> string \<times> string) list" where
  "search tfidf argpart st inp =
     (case search_indices tfidf argpart st inp of
        Inl e \<Rightarrow> Inl e
      | Inr indices \<Rightarrow>
          if list_all (\<lambda>i. i < length (titles st)) indices
          then (let results = map (\<lambda>i. titles st ! i) indices;
                    results = sort_key (\<lambda>r. - ratings r) results
                in Inr (take 10 (map select_cols results)))
          else Inl OutOfBounds)"

subsection \<open>The list of liked books\<close>

text \<open>
  A method returns the lines it printed together with the object after the call; when an
  exception leaves the method, the first component is \<open>Inl\<close> of it.
\<close>

definition add_liked_book :: "string \<Rightarrow> recommender \<Rightarrow> string list \<times> recommender" where
  "add_liked_book inp st =
     (if inp \<in> set (liked_books st) then ([''Book is already selected''], st)
      else case py_int inp of
             None \<Rightarrow> ([''Error: input is not a book id number''], st)
           | Some tmp \<Rightarrow>
               if 0 < tmp then ([], st\<lparr>liked_books := liked_books st @ [inp]\<rparr>)
               else ([], st))"

subsection \<open>Similar users\<close>

definition add_users :: "string set \<Rightarrow> interaction list \<Rightarrow> string set" where
  "add_users users rows =
     foldl (\<lambda>us row. if user_id row \<in> us then us
                      else if 4 \<le> rating row then insert (user_id row) us else us)
           users rows"

definition find_similar_users :: "recommender \<Rightarrow> (py_error + string list) \<times> recommender" where
  "find_similar_users st =
     (if liked_books st = [] then (Inr [''Error: no books entered''], st)
      else case subscript_all (book_data_to_interactions_map st) (liked_books st) of
             Inl e \<Rightarrow> (Inl e, st)
           | Inr liked_books_mapped \<Rightarrow>
               (let filtered_interactions_df =
                      filter (\<lambda>row. csv_id row \<in> set liked_books_mapped) (interactions_df st)
                in (Inr [], st\<lparr>similar_users :=
                                   add_users (similar_users st) filtered_interactions_df\<rparr>)))"

subsection \<open>Recommendations\<close>

text \<open>
  The first filter is written \<^verbatim>\<open>is_in(...) & pl.col("rating") > 0\<close>. In Python \<^verbatim>\<open>&\<close>
  binds tighter than \<^verbatim>\<open>>\<close>, so the expression is \<^verbatim>\<open>(is_in(...) & rating) > 0\<close>.
  On a Boolean and an Int64 column the data frame library casts the Boolean to the
  integer 0 or 1 and takes the bitwise conjunction.
\<close>

definition pl_and :: "bool \<Rightarrow> int \<Rightarrow> int" where
  "pl_and b r = (if b then 1 else 0) AND r"

definition recs_df :: "recommender \<Rightarrow> interaction list" where
  "recs_df st =
     filter (\<lambda>row. 3 \<le> rating row)
       (filter (\<lambda>row. 0 < pl_and (user_id row \<in> similar_users st) (rating row))
          (interactions_df st))"

text \<open>\<^verbatim>\<open>value_counts\<close>: each distinct value with its number of occurrences.\<close>

definition value_counts :: "string list \<Rightarrow> (string \<times> nat) list" where
  "value_counts xs = map (\<lambda>x. (x, count_list xs x)) (remdups xs)"








section \<open>Properties checked on the model\<close>

text \<open>
  The property asked of the candidates of \<^verbatim>\<open>search\<close>: no index outside \<open>inside\<close> has a
  larger similarity than an index in it.
\<close>

definition most_similar :: "rat list \<Rightarrow> nat list \<Rightarrow> bool" where
  "most_similar a inside \<longleftrightarrow>
     list_all (\<lambda>i. i \<in> set inside \<or> list_all (\<lambda>j. a ! i \<le> a ! j) inside) [0..<length a]"

section \<open>Example data\<close>

definition mk_raw :: "string \<Rightarrow> string \<Rightarrow> string \<Rightarrow> raw_book" where
  "mk_raw i t c =
     \<lparr>raw_book_id = i, title_without_series = t, ratings_count = c,
      raw_url = ''https://example.org/'' @ i\<rparr>"

definition example_books :: "raw_book list" where
  "example_books =
     [mk_raw ''1'' ''Harry Potter!'' ''1000'',
      mk_raw ''2'' ''Harry Potter'' ''50'',
      mk_raw ''3'' ''The Hobbit'' ''26'',
      mk_raw ''4'' ''Dune'' ''25'',
      mk_raw ''5'' ''Emma'' [],
      mk_raw ''6'' ''Ulysses'' ''abc'',
      mk_raw ''7'' ''Persuasion'' ''300'',
      mk_raw ''8'' ''Middlemarch'' ''5000'',
      mk_raw ''9'' ''Walden'' ''40'',
      mk_raw ''10'' ''Candide'' ''41'',
      mk_raw ''11'' ''Hamlet'' ''42'',
      mk_raw ''12'' ''Macbeth'' ''43'',
      mk_raw ''13'' ''Othello'' ''44'',
      mk_raw ''14'' ''Beowulf'' ''45'']"

definition example_pairs :: "(string \<times> string) list" where
  "example_pairs = [(''c7'', ''7''), (''c8'', ''8''), (''c1'', ''1'')]"

text \<open>
  One user with a rating of 4 for book 1, thirty ratings of 5 for book 7 and twenty-six
  ratings of 3 for book 8.
\<close>

definition example_interactions :: "interaction list" where
  "example_interactions =
     replicate 30 \<lparr>user_id = ''u1'', csv_id = ''c7'', rating = 5\<rparr> @
     replicate 26 \<lparr>user_id = ''u1'', csv_id = ''c8'', rating = 3\<rparr> @
     [\<lparr>user_id = ''u1'', csv_id = ''c1'', rating = 4\<rparr>]"

definition example_recommender :: recommender where
  "example_recommender = init example_books example_pairs example_interactions"

text \<open>The user likes book 1 and asks for similar users.\<close>

definition example_session :: recommender where
  "example_session = snd (find_similar_users (snd (add_liked_book ''1'' example_recommender)))"

text \<open>
  A toy similarity (1 for a title equal to the query, 0 otherwise) and a full sort of the
  indices, which is one admissible result of a partition.
\<close>

definition exact_match :: "string list \<Rightarrow> string \<Rightarrow> rat list" where
  "exact_match corpus q = map (\<lambda>t. if t = q then 1 else 0) corpus"

definition argsort :: "rat list \<Rightarrow> nat \<Rightarrow> nat list" where
  "argsort a k = sort_key (\<lambda>i. a ! i) [0..<length a]"

text \<open>
  A catalogue of 51 books and a similarity array over it: book 0 scores one half, books
  1 to 40 score nothing, books 41 to 50 score one. The array is already partitioned
  around position 41, so the identity is an admissible index array.
\<close>

definition two_digits :: "nat \<Rightarrow> string" where
  "two_digits i = [char_of (48 + i div 10), char_of (48 + i mod 10)]"

definition large_catalog :: recommender where
  "large_catalog = init (map (\<lambda>i. mk_raw (two_digits i) ''Title'' ''100'') [0..<51]) [] []"

definition skewed_similarity :: "rat list" where
  "skewed_similarity = [1 / 2] @ replicate 40 0 @ replicate 10 1"





section \<open>Facts about the example data\<close>

lemma example_liked_empty: "liked_books example_recommender = []"
  by (simp add: example_recommender_def init_def split: prod.splits)

lemma example_similar_empty: "similar_users example_recommender = {}"
  by (simp add: example_recommender_def init_def split: prod.splits)


lemma example_map_9: "book_data_to_interactions_map example_recommender ''9'' = None"
  by (simp add: example_recommender_def init_def example_pairs_def)


lemma norm_input_examples:
  "norm_input ''Harry Potter!'' = ''harry potter''"
  "norm_input ''harry potter'' = ''harry potter''"
  by code_simp+






section \<open>The filter of \<^verbatim>\<open>find_recs\<close>\<close>

lemma pl_and_positive: "0 < pl_and b r \<longleftrightarrow> b \<and> odd r"
proof (cases b)
  case True
  have "0 < r mod 2 \<longleftrightarrow> odd r" by presburger
  with True show ?thesis by (simp add: pl_and_def one_and_eq)
next
  case False
  then show ?thesis by (simp add: pl_and_def)
qed

text \<open>
  What the two filters keep: the rows of similar users whose rating is at least 3 and
  odd. The parity condition comes from the bitwise conjunction in the first filter.
\<close>

lemma recs_df_iff:
  "row \<in> set (recs_df st) \<longleftrightarrow>
     row \<in> set (interactions_df st) \<and> user_id row \<in> similar_users st \<and>
     3 \<le> rating row \<and> odd (rating row)"
  by (auto simp: recs_df_def pl_and_positive)

text \<open>
  Claim C1 says that an interaction row counts towards the neighbour count of its book
  exactly when its user is a similar user and its rating is at least 3, so that a
  rating of 4 by a similar user counts. The program is evaluated on the example session:
  the row of user \<open>u1\<close> with rating 4 for book \<open>c1\<close> is in the interactions, \<open>u1\<close> is a
  similar user, but the row is not among the counted ones and \<open>c1\<close> has no count.
\<close>

theorem neighbor_rating_four_not_counted:
  "\<lparr>user_id = ''u1'', csv_id = ''c1'', rating = 4\<rparr> \<in> set (interactions_df example_session) \<and>
   ''u1'' \<in> similar_users example_session \<and>
   \<lparr>user_id = ''u1'', csv_id = ''c1'', rating = 4\<rparr> \<notin> set (recs_df example_session) \<and>
   value_counts (map csv_id (recs_df example_session)) = [(''c7'', 30), (''c8'', 26)]"
  by code_simp

section \<open>The candidates of \<^verbatim>\<open>search\<close>\<close>

text \<open>
  What a partition around position \<open>k\<close> does guarantee: the indices from position \<open>k\<close>
  on are the most similar ones. With \<^verbatim>\<open>kth = -10\<close> these are the last ten.
\<close>

lemma argpartition_upper_part:
  assumes "argpartition_ok a k idx"
  shows "most_similar a (drop k idx)"
proof -
  let ?n = "length a"
  from assms have k: "k < ?n" and srt: "sort idx = [0..<?n]"
    and lo: "\<forall>i<k. a ! (idx ! i) \<le> a ! (idx ! k)"
    and hi: "\<forall>i. k < i \<and> i < ?n \<longrightarrow> a ! (idx ! k) \<le> a ! (idx ! i)"
    by (auto simp: argpartition_ok_def list_all_iff)
  have "set (sort idx) = set idx" and "length (sort idx) = length idx" by simp_all
  with srt have st: "set idx = {0..<?n}" and len: "length idx = ?n" by simp_all
  have "i \<in> set (drop k idx) \<or> (\<forall>j\<in>set (drop k idx). a ! i \<le> a ! j)" if "i < ?n" for i
  proof (cases "i \<in> set (drop k idx)")
    case True
    then show ?thesis by simp
  next
    case False
    from that st obtain p where p: "p < ?n" "idx ! p = i"
      by (metis atLeastLessThan_iff in_set_conv_nth len zero_le)
    have "p < k"
    proof (rule ccontr)
      assume "\<not> p < k"
      then have "idx ! p \<in> set (drop k idx)"
        using p len by (auto simp: in_set_conv_nth intro!: exI [of _ "p - k"])
      with p False show False by simp
    qed
    with lo p have le: "a ! i \<le> a ! (idx ! k)" by auto
    have "a ! i \<le> a ! j" if "j \<in> set (drop k idx)" for j
    proof -
      from that obtain q where q: "q < ?n - k" "j = idx ! (k + q)"
        using len by (auto simp: in_set_conv_nth)
      show ?thesis
      proof (cases "q = 0")
        case True
        with q le show ?thesis by simp
      next
        case False
        with q hi have "a ! (idx ! k) \<le> a ! j" by auto
        with le show ?thesis by simp
      qed
    qed
    then show ?thesis by blast
  qed
  then show ?thesis by (auto simp: most_similar_def list_all_iff)
qed

lemma large_catalog_size: "length (titles large_catalog) = length skewed_similarity"
  by code_simp


section \<open>Adding a liked book\<close>






section \<open>The identifier maps\<close>






section \<open>Search\<close>

text \<open>
  Claim C6: two queries that agree after lowering the case and removing every character
  outside \<^verbatim>\<open>[a-z0-9 ]\<close> get the same result, in the same order.
\<close>

theorem search_normalised_query:
  assumes "norm_input q1 = norm_input q2"
  shows "search tfidf argpart st q1 = search tfidf argpart st q2"
  using assms by (simp add: search_def search_indices_def)

theorem search_normalised_query_witness:
  "norm_input ''Harry Potter!'' = norm_input ''harry potter'' \<and>
   search exact_match argsort example_recommender ''Harry Potter!'' =
     search exact_match argsort example_recommender ''harry potter''"
  using search_normalised_query
    [of "''Harry Potter!''" "''harry potter''" exact_match argsort example_recommender]
  by (simp add: norm_input_examples)





section \<open>Similar users\<close>

text \<open>
  Claim C8: with no liked book, \<^verbatim>\<open>find_similar_users\<close> reports the error and leaves the
  object as it was: the list of liked books and the set of similar users are unchanged.
\<close>

theorem find_similar_users_no_books:
  assumes "liked_books st = []"
  shows "find_similar_users st = (Inr [''Error: no books entered''], st) \<and>
         liked_books (snd (find_similar_users st)) = liked_books st \<and>
         similar_users (snd (find_similar_users st)) = similar_users st"
  using assms by (simp add: find_similar_users_def)

theorem find_similar_users_no_books_witness:
  "liked_books example_recommender = [] \<and>
   find_similar_users example_recommender =
     (Inr [''Error: no books entered''], example_recommender) \<and>
   similar_users (snd (find_similar_users example_recommender)) = {}"
  using find_similar_users_no_books [of example_recommender]
  by (simp add: example_liked_empty example_similar_empty)

lemma subscript_all_missing:
  "\<exists>k\<in>set ks. d k = None \<Longrightarrow>
   \<exists>k\<in>set ks. d k = None \<and> subscript_all d ks = Inl (KeyError k)"
proof (induction ks)
  case Nil
  then show ?case by simp
next
  case (Cons k ks)
  show ?case
  proof (cases "d k")
    case None
    then show ?thesis by (simp add: subscript_def)
  next
    case (Some v)
    with Cons.prems have "\<exists>k\<in>set ks. d k = None" by auto
    from Cons.IH [OF this] obtain k' where "k' \<in> set ks" "d k' = None"
      "subscript_all d ks = Inl (KeyError k')" by blast
    with Some show ?thesis by (auto simp: subscript_def)
  qed
qed

text \<open>
  Claim C9: all liked books are translated before any user is added, so when a liked
  book has no entry in the map, \<^verbatim>\<open>KeyError\<close> leaves the method and the object, the set
  of similar users included, is as it was before the call.
\<close>

theorem find_similar_users_missing_mapping:
  assumes "\<exists>b\<in>set (liked_books st). book_data_to_interactions_map st b = None"
  shows "\<exists>b\<in>set (liked_books st). book_data_to_interactions_map st b = None \<and>
           find_similar_users st = (Inl (KeyError b), st) \<and>
           similar_users (snd (find_similar_users st)) = similar_users st"
proof -
  from assms have ne: "liked_books st \<noteq> []" by auto
  from subscript_all_missing [OF assms] obtain b where
    b: "b \<in> set (liked_books st)" "book_data_to_interactions_map st b = None"
       "subscript_all (book_data_to_interactions_map st) (liked_books st) = Inl (KeyError b)"
    by blast
  with ne have "find_similar_users st = (Inl (KeyError b), st)"
    by (simp add: find_similar_users_def)
  with b show ?thesis by auto
qed

theorem find_similar_users_missing_mapping_witness:
  "book_data_to_interactions_map example_recommender ''9'' = None \<and>
   find_similar_users (example_recommender\<lparr>liked_books := [''1'', ''9'']\<rparr>) =
     (Inl (KeyError ''9''), example_recommender\<lparr>liked_books := [''1'', ''9'']\<rparr>)"
  using find_similar_users_missing_mapping
    [of "example_recommender\<lparr>liked_books := [''1'', ''9'']\<rparr>"]
  by (simp add: example_map_9 example_recommender_def init_def example_pairs_def)

section \<open>Scores and their order\<close>







end
